theory Spec2Isabelle
  imports Main "HOL-Library.Sublist"
begin

section \<open>The upload validator of \<open>users/profile_views.py\<close>\<close>

text \<open>
  The class \<open>SecureFileUploadMixin\<close> holds the allow-list, two limits and the method
  \<open>validate_file\<close>, which inspects an uploaded file and either returns \<open>True\<close> or raises
  Django's \<open>ValidationError\<close>. The embedding below follows the method statement by
  statement. The uploaded file is a record of what the method touches: the attributes
  \<open>name\<close> and \<open>size\<close>, and the byte stream, which is its contents and a read position.
  \<open>os.path\<close> is the POSIX one.

  Strings: a \<open>char\<close> of a file name stands for one code point below 256, so \<open>length\<close>
  counts what Python's \<open>len\<close> counts on such names; a \<open>char\<close> of the content is one byte.
\<close>

subsection \<open>Data\<close>

type_synonym bytes = string

record uploaded_file =
  name :: string
  size_file :: int
  content :: bytes
  pos :: nat

text \<open>
  \<open>ALLOWED_FILE_TYPES\<close> is a dict literal; Python dicts keep insertion order, which the
  message of the extension check shows, so the model is an association list.
\<close>

definition ALLOWED_FILE_TYPES :: "(string \<times> string) list" where
  "ALLOWED_FILE_TYPES =
     [(''application/pdf'', ''.pdf''),
      (''application/msword'', ''.doc''),
      (''application/vnd.openxmlformats-officedocument.wordprocessingml.document'', ''.docx''),
      (''text/plain'', ''.txt''),
      (''image/jpeg'', ''.jpg''),
      (''image/png'', ''.png'')]"

definition MAX_FILE_SIZE :: int where
  "MAX_FILE_SIZE = 10 * 1024 * 1024"

definition MAX_FILENAME_LENGTH :: int where
  "MAX_FILENAME_LENGTH = 255"

text \<open>
  The five \<open>raise ValidationError(...)\<close> statements of \<open>validate_file\<close>, in source order.
  Python's exception carries only the message; the tag records which statement raised it.
\<close>

datatype reason =
  FileTooLarge | FilenameTooLong | ExtensionNotAllowed | MimeNotAllowed | SuspiciousContent

datatype error = ValidationError reason string

fun reason_of :: "error \<Rightarrow> reason" where
  "reason_of (ValidationError r m) = r"

fun message_of :: "error \<Rightarrow> string" where
  "message_of (ValidationError r m) = m"

subsection \<open>Library functions the method calls\<close>

text \<open>\<open>bytes.lower()\<close>: only the ASCII letters \<open>A\<close> to \<open>Z\<close> change.\<close>

definition lower_byte :: "char \<Rightarrow> char" where
  "lower_byte c =
     (let n = (of_char c :: nat) in if 65 \<le> n \<and> n \<le> 90 then char_of (n + 32) else c)"

definition lower_bytes :: "bytes \<Rightarrow> bytes" where
  "lower_bytes b = map lower_byte b"

text \<open>
  \<open>str.lower()\<close> on code points below 256: the ASCII capitals and the Latin-1 capitals
  \<open>0xC0\<close> to \<open>0xDE\<close> (the multiplication sign \<open>0xD7\<close> apart) move up by 32.
\<close>

definition lower_char :: "char \<Rightarrow> char" where
  "lower_char c =
     (let n = (of_char c :: nat) in
      if (65 \<le> n \<and> n \<le> 90) \<or> (192 \<le> n \<and> n \<le> 222 \<and> n \<noteq> 215)
      then char_of (n + 32) else c)"

definition lower_str :: "string \<Rightarrow> string" where
  "lower_str s = map lower_char s"

text \<open>\<open>str.rfind\<close> for a single character: the index of its last occurrence, or \<open>-1\<close>.\<close>

fun rfind_from :: "char \<Rightarrow> string \<Rightarrow> int \<Rightarrow> int \<Rightarrow> int" where
  "rfind_from c [] i found = found"
| "rfind_from c (x # xs) i found = rfind_from c xs (i + 1) (if x = c then i else found)"

definition rfind :: "char \<Rightarrow> string \<Rightarrow> int" where
  "rfind c p = rfind_from c p 0 (-1)"

text \<open>
  \<open>os.path.splitext\<close> (the POSIX one): the extension starts at the last dot, provided that
  dot comes after the last slash and some character between the slash and the dot is not
  a dot. The \<open>while\<close> loop that skips leading dots is \<open>has_non_dot\<close> on that slice.
\<close>

fun has_non_dot :: "string \<Rightarrow> bool" where
  "has_non_dot [] = False"
| "has_non_dot (c # cs) = (if c \<noteq> CHR ''.'' then True else has_non_dot cs)"

definition slice :: "int \<Rightarrow> int \<Rightarrow> string \<Rightarrow> string" where
  "slice a b p = take (nat b - nat a) (drop (nat a) p)"

definition splitext :: "string \<Rightarrow> string \<times> string" where
  "splitext p =
     (let sepIndex = rfind (CHR ''/'') p;
          dotIndex = rfind (CHR ''.'') p
      in if dotIndex > sepIndex \<and> has_non_dot (slice (sepIndex + 1) dotIndex p)
         then (take (nat dotIndex) p, drop (nat dotIndex) p)
         else (p, []))"

text \<open>\<open>', '.join(...)\<close>.\<close>

fun join :: "string \<Rightarrow> string list \<Rightarrow> string" where
  "join sep [] = []"
| "join sep [x] = x"
| "join sep (x # y # ys) = x @ sep @ join sep (y # ys)"

text \<open>Decimal text of an integer, as an f-string prints it.\<close>

function str_nat :: "nat \<Rightarrow> string" where
  "str_nat n =
     (if n < 10 then [char_of (48 + n)] else str_nat (n div 10) @ [char_of (48 + n mod 10)])"
  by pat_completeness auto
termination
  by (relation "measure id") auto

definition str_int :: "int \<Rightarrow> string" where
  "str_int i = (if i < 0 then CHR ''-'' # str_nat (nat (- i)) else str_nat (nat i))"

text \<open>
  \<open>repr\<close> of a string, which \<open>str\<close> of a \<open>ValidationError\<close> built from one message uses:
  Django prints the list of messages, \<open>['...']\<close>. The quote is the double quote exactly
  when the text has a single quote and no double quote; the quote and the backslash are
  escaped, tab, newline and carriage return get their letter, and the other code points
  that are not printable (below \<open>0x20\<close>, \<open>0x7F\<close> to \<open>0xA0\<close>, \<open>0xAD\<close>) are written \<open>\xNN\<close>.
\<close>

definition hex_digit :: "nat \<Rightarrow> char" where
  "hex_digit d = (if d < 10 then char_of (48 + d) else char_of (87 + d))"

definition repr_char :: "char \<Rightarrow> char \<Rightarrow> string" where
  "repr_char quote c =
     (let n = (of_char c :: nat) in
      if c = quote \<or> c = CHR 0x5C then [CHR 0x5C, c]
      else if n = 9 then [CHR 0x5C, CHR ''t'']
      else if n = 10 then [CHR 0x5C, CHR ''n'']
      else if n = 13 then [CHR 0x5C, CHR ''r'']
      else if n < 32 \<or> (127 \<le> n \<and> n \<le> 160) \<or> n = 173
      then [CHR 0x5C, CHR ''x'', hex_digit (n div 16), hex_digit (n mod 16)]
      else [c])"

definition repr_str :: "string \<Rightarrow> string" where
  "repr_str s =
     (let quote = (if CHR 0x27 \<in> set s \<and> CHR 0x22 \<notin> set s then CHR 0x22 else CHR 0x27)
      in quote # concat (map (repr_char quote) s) @ [quote])"

definition str_ValidationError :: "string \<Rightarrow> string" where
  "str_ValidationError m = ''['' @ repr_str m @ '']''"

subsection \<open>The stream\<close>

text \<open>
  \<open>read(n)\<close> returns at most \<open>n\<close> bytes from the current position and advances the
  position by the number of bytes returned; \<open>seek(p)\<close> sets the position.
\<close>

definition read :: "nat \<Rightarrow> uploaded_file \<Rightarrow> bytes \<times> uploaded_file" where
  "read n f =
     (let chunk = take n (drop (pos f) (content f))
      in (chunk, f\<lparr>pos := pos f + length chunk\<rparr>))"

definition seek :: "nat \<Rightarrow> uploaded_file \<Rightarrow> uploaded_file" where
  "seek p f = f\<lparr>pos := p\<rparr>"

subsection \<open>The validator\<close>

definition suspicious_patterns :: "bytes list" where
  "suspicious_patterns =
     [''<script'', ''javascript:'', ''vbscript:'', ''data:text/html'',
      ''data:application/x-javascript'']"

text \<open>\<open>pattern in file_content_lower\<close> on bytes is the contiguous-sublist test.\<close>

definition contains_suspicious_content :: "bytes \<Rightarrow> bool" where
  "contains_suspicious_content file_content =
     (let file_content_lower = lower_bytes file_content
      in list_ex (\<lambda>pattern. sublist pattern file_content_lower) suspicious_patterns)"

text \<open>\<open>{v: k for k, v in ALLOWED_FILE_TYPES.items()}\<close>: a later item overwrites an earlier one.\<close>

definition extension_to_mime :: "string \<Rightarrow> string option" where
  "extension_to_mime = map_of (rev (map (\<lambda>(k, v). (v, k)) ALLOWED_FILE_TYPES))"

text \<open>How an f-string prints \<open>detected_mime\<close>.\<close>

fun format_mime :: "string option \<Rightarrow> string" where
  "format_mime None = ''None''"
| "format_mime (Some m) = m"

text \<open>
  \<open>mimetypes.guess_type\<close> answers from tables that the interpreter loads from the machine
  it runs on, so the detector is the parameter \<open>guess_type\<close>: from a file name to the
  detected type, \<open>None\<close> when nothing is detected. Lines 63 to 70 of the method:
  \<open>not detected_mime\<close> holds for \<open>None\<close> and for the empty string, and then the
  reversed allow-list is asked with the lowercase extension.
\<close>

definition detected_mime :: "(string \<Rightarrow> string option) \<Rightarrow> string \<Rightarrow> string option" where
  "detected_mime guess_type nm =
     (let guessed = guess_type nm
      in if guessed = None \<or> guessed = Some []
         then extension_to_mime (lower_str (snd (splitext nm)))
         else guessed)"

text \<open>The body of the \<open>try\<close> block.\<close>

definition validate_body ::
  "(string \<Rightarrow> string option) \<Rightarrow> uploaded_file \<Rightarrow> ((reason \<times> string) + bool) \<times> uploaded_file"
where
  "validate_body guess_type uploaded_file =
     (if size_file uploaded_file > MAX_FILE_SIZE then
        (Inl (FileTooLarge,
              ''File size exceeds maximum limit of ''
                @ str_int (MAX_FILE_SIZE div (1024 * 1024)) @ ''MB''), uploaded_file)
      else if int (length (name uploaded_file)) > MAX_FILENAME_LENGTH then
        (Inl (FilenameTooLong,
              ''Filename too long. Maximum length is ''
                @ str_int MAX_FILENAME_LENGTH @ '' characters''), uploaded_file)
      else
        let file_extension = lower_str (snd (splitext (name uploaded_file))) in
        if file_extension \<notin> set (map snd ALLOWED_FILE_TYPES) then
          (Inl (ExtensionNotAllowed,
                ''File type not allowed. Allowed types: ''
                  @ join '', '' (map snd ALLOWED_FILE_TYPES)), uploaded_file)
        else
          let (file_content, f1) = read 2048 uploaded_file;
              f2 = seek 0 f1;
              mime = detected_mime guess_type (name f2)
          in if mime \<notin> Some ` set (map fst ALLOWED_FILE_TYPES) then
               (Inl (MimeNotAllowed,
                     ''File type not allowed. Detected: '' @ format_mime mime), f2)
             else if contains_suspicious_content file_content then
               (Inl (SuspiciousContent, ''File contains suspicious content''), f2)
             else (Inr True, f2))"

text \<open>
  The \<open>except Exception\<close> clause: whatever the body raised is raised again as a
  \<open>ValidationError\<close> whose message is \<open>File validation failed: \<close> followed by \<open>str(e)\<close>.
  The result pairs the outcome with the file as the call leaves it. The stream of the
  model cannot fail, so the five \<open>raise\<close> statements are all the clause catches; the
  warning it writes to the logger is not part of the model.
\<close>

definition validate_file ::
  "(string \<Rightarrow> string option) \<Rightarrow> uploaded_file \<Rightarrow> (error + bool) \<times> uploaded_file"
where
  "validate_file guess_type uploaded_file =
     (case validate_body guess_type uploaded_file of
        (Inl (r, m), f') \<Rightarrow>
          (Inl (ValidationError r (''File validation failed: '' @ str_ValidationError m)), f')
      | (Inr b, f') \<Rightarrow> (Inr b, f'))"

subsection \<open>What the checks look at\<close>

text \<open>The bytes that \<open>read(2048)\<close> returns: for a stream at position 0, the first 2048.\<close>

definition content_sample :: "uploaded_file \<Rightarrow> bytes" where
  "content_sample f = fst (read 2048 f)"

text \<open>
  The five checks, each as the condition under which it rejects, listed with the reason
  it gives. \<open>first_failure\<close> is the reason of the first check of the list that fails.
\<close>

definition fails_size :: "uploaded_file \<Rightarrow> bool" where
  "fails_size f = (size_file f > 10 * 1024 * 1024)"

definition fails_filename_length :: "uploaded_file \<Rightarrow> bool" where
  "fails_filename_length f = (length (name f) > 255)"

definition fails_extension :: "uploaded_file \<Rightarrow> bool" where
  "fails_extension f =
     (lower_str (snd (splitext (name f))) \<notin> set (map snd ALLOWED_FILE_TYPES))"

definition fails_mime :: "(string \<Rightarrow> string option) \<Rightarrow> uploaded_file \<Rightarrow> bool" where
  "fails_mime guess_type f =
     (detected_mime guess_type (name f) \<notin> Some ` set (map fst ALLOWED_FILE_TYPES))"

definition fails_content :: "uploaded_file \<Rightarrow> bool" where
  "fails_content f = contains_suspicious_content (content_sample f)"

definition checks_in_order ::
  "(string \<Rightarrow> string option) \<Rightarrow> uploaded_file \<Rightarrow> (reason \<times> bool) list" where
  "checks_in_order guess_type f =
     [(FileTooLarge, fails_size f),
      (FilenameTooLong, fails_filename_length f),
      (ExtensionNotAllowed, fails_extension f),
      (MimeNotAllowed, fails_mime guess_type f),
      (SuspiciousContent, fails_content f)]"

definition first_failure :: "(string \<Rightarrow> string option) \<Rightarrow> uploaded_file \<Rightarrow> reason option" where
  "first_failure guess_type f = map_option fst (find snd (checks_in_order guess_type f))"

text \<open>The reason a call of \<open>validate_file\<close> rejects with, \<open>None\<close> when it returns \<open>True\<close>.\<close>

definition rejection :: "(error + bool) \<times> uploaded_file \<Rightarrow> reason option" where
  "rejection res = (case fst res of Inl e \<Rightarrow> Some (reason_of e) | Inr b \<Rightarrow> None)"


text \<open>The text of a name from its last dot on: the dot and what follows it; empty when
  the name has no dot.\<close>

definition suffix_from_last_dot :: "string \<Rightarrow> string" where
  "suffix_from_last_dot nm =
     (if CHR ''.'' \<in> set nm
      then CHR ''.'' # rev (takeWhile (\<lambda>c. c \<noteq> CHR ''.'') (rev nm))
      else [])"

subsection \<open>Two detectors\<close>

text \<open>
  Concrete detectors for the examples. \<open>guess_by_extension\<close> looks the lowercase extension
  up in an excerpt of the table built into CPython's \<open>mimetypes\<close>, which is what
  \<open>guess_type\<close> does on a plain file name; \<open>.docx\<close> is not in that table.
  \<open>guess_type\<close> takes its argument for a URL first: with a scheme of two or more letters
  in front, it looks at the extension of the URL's path only. CPython answers \<open>text/html\<close>
  for \<open>http:a.html?b.pdf\<close>, whose path is \<open>a.html\<close>; \<open>guess_as_url\<close> is
  \<open>guess_by_extension\<close> with that one answer added.
\<close>

definition types_map_excerpt :: "(string \<times> string) list" where
  "types_map_excerpt =
     [(''.doc'', ''application/msword''),
      (''.pdf'', ''application/pdf''),
      (''.jpg'', ''image/jpeg''),
      (''.png'', ''image/png''),
      (''.html'', ''text/html''),
      (''.txt'', ''text/plain'')]"

definition guess_by_extension :: "string \<Rightarrow> string option" where
  "guess_by_extension nm = map_of types_map_excerpt (lower_str (snd (splitext nm)))"

definition guess_as_url :: "string \<Rightarrow> string option" where
  "guess_as_url nm =
     (if nm = ''http:a.html?b.pdf'' then Some ''text/html'' else guess_by_extension nm)"

section \<open>Properties\<close>

subsection \<open>The messages\<close>

lemma size_message:
  "''File size exceeds maximum limit of '' @ str_int (MAX_FILE_SIZE div (1024 * 1024)) @ ''MB''
     = ''File size exceeds maximum limit of 10MB''"
  by code_simp

lemma length_message:
  "''Filename too long. Maximum length is '' @ str_int MAX_FILENAME_LENGTH @ '' characters''
     = ''Filename too long. Maximum length is 255 characters''"
  by code_simp

lemma extension_message:
  "''File type not allowed. Allowed types: '' @ join '', '' (map snd ALLOWED_FILE_TYPES)
     = ''File type not allowed. Allowed types: .pdf, .doc, .docx, .txt, .jpg, .png''"
  by code_simp

lemma wrapped_size_message:
  "''File validation failed: '' @ str_ValidationError ''File size exceeds maximum limit of 10MB''
     = ''File validation failed: ['File size exceeds maximum limit of 10MB']''"
  by code_simp

lemma wrapped_length_message:
  "''File validation failed: ''
       @ str_ValidationError ''Filename too long. Maximum length is 255 characters''
     = ''File validation failed: ['Filename too long. Maximum length is 255 characters']''"
  by code_simp

lemma wrapped_extension_message:
  "''File validation failed: ''
       @ str_ValidationError
           ''File type not allowed. Allowed types: .pdf, .doc, .docx, .txt, .jpg, .png''
     = ''File validation failed: ['File type not allowed. Allowed types: .pdf, .doc, .docx, .txt, .jpg, .png']''"
  by code_simp

lemma wrapped_content_message:
  "''File validation failed: '' @ str_ValidationError ''File contains suspicious content''
     = ''File validation failed: ['File contains suspicious content']''"
  by code_simp

subsection \<open>The method as a chain of the five checks\<close>

lemma read_sample: "read 2048 f = (content_sample f, f\<lparr>pos := pos f + length (content_sample f)\<rparr>)"
  by (simp add: read_def content_sample_def Let_def)

lemma validate_body_cases:
  "validate_body g f =
     (if fails_size f then
        (Inl (FileTooLarge, ''File size exceeds maximum limit of 10MB''), f)
      else if fails_filename_length f then
        (Inl (FilenameTooLong, ''Filename too long. Maximum length is 255 characters''), f)
      else if fails_extension f then
        (Inl (ExtensionNotAllowed,
              ''File type not allowed. Allowed types: .pdf, .doc, .docx, .txt, .jpg, .png''), f)
      else if fails_mime g f then
        (Inl (MimeNotAllowed,
              ''File type not allowed. Detected: '' @ format_mime (detected_mime g (name f))),
         f\<lparr>pos := 0\<rparr>)
      else if fails_content f then
        (Inl (SuspiciousContent, ''File contains suspicious content''), f\<lparr>pos := 0\<rparr>)
      else (Inr True, f\<lparr>pos := 0\<rparr>))"
  unfolding validate_body_def size_message length_message extension_message
  by (simp add: fails_size_def fails_filename_length_def fails_extension_def fails_mime_def
      fails_content_def MAX_FILE_SIZE_def MAX_FILENAME_LENGTH_def read_sample seek_def Let_def
      del: append.simps)


lemma validate_file_cases:
  "validate_file g f =
     (if fails_size f then
        (Inl (ValidationError FileTooLarge
                ''File validation failed: ['File size exceeds maximum limit of 10MB']''), f)
      else if fails_filename_length f then
        (Inl (ValidationError FilenameTooLong
                ''File validation failed: ['Filename too long. Maximum length is 255 characters']''),
         f)
      else if fails_extension f then
        (Inl (ValidationError ExtensionNotAllowed
                ''File validation failed: ['File type not allowed. Allowed types: .pdf, .doc, .docx, .txt, .jpg, .png']''),
         f)
      else if fails_mime g f then
        (Inl (ValidationError MimeNotAllowed
                (''File validation failed: ''
                   @ str_ValidationError
                       (''File type not allowed. Detected: ''
                          @ format_mime (detected_mime g (name f))))),
         f\<lparr>pos := 0\<rparr>)
      else if fails_content f then
        (Inl (ValidationError SuspiciousContent
                ''File validation failed: ['File contains suspicious content']''),
         f\<lparr>pos := 0\<rparr>)
      else (Inr True, f\<lparr>pos := 0\<rparr>))"
  unfolding validate_file_def validate_body_cases
  by (simp add: wrapped_size_message wrapped_length_message wrapped_extension_message
      wrapped_content_message del: append.simps)

lemma rejection_cases:
  "rejection (validate_file g f) =
     (if fails_size f then Some FileTooLarge
      else if fails_filename_length f then Some FilenameTooLong
      else if fails_extension f then Some ExtensionNotAllowed
      else if fails_mime g f then Some MimeNotAllowed
      else if fails_content f then Some SuspiciousContent
      else None)"
  unfolding validate_file_cases by (simp add: rejection_def)

subsection \<open>Order of the checks\<close>

text \<open>
  C1. The checks run in the order size, file-name length, extension, MIME, content, and
  the first one that fails decides: the reason \<open>validate_file\<close> rejects with is the reason
  of the first failing check of \<open>checks_in_order\<close>, and there is no rejection when none
  fails. In particular a file that is oversized and also has an extension outside the
  allow-list is rejected for its size.
\<close>

theorem validate_file_first_failure:
  "rejection (validate_file g f) = first_failure g f
   \<and> (fails_size f \<and> fails_extension f \<longrightarrow> rejection (validate_file g f) = Some FileTooLarge)"
  unfolding rejection_cases by (simp add: first_failure_def checks_in_order_def)


theorem validate_file_first_failure_witness:
  "fails_size \<lparr>name = ''big.exe'', size_file = 10485761, content = ''hello'', pos = 0\<rparr>
   \<and> fails_extension \<lparr>name = ''big.exe'', size_file = 10485761, content = ''hello'', pos = 0\<rparr>
   \<and> rejection (validate_file guess_by_extension
         \<lparr>name = ''big.exe'', size_file = 10485761, content = ''hello'', pos = 0\<rparr>)
       = Some FileTooLarge"
proof -
  let ?f = "\<lparr>name = ''big.exe'', size_file = 10485761, content = ''hello'', pos = 0\<rparr>"
  have s: "fails_size ?f" by (simp add: fails_size_def)
  have e: "fails_extension ?f" by code_simp
  from s e validate_file_first_failure [of guess_by_extension ?f] show ?thesis by blast
qed

subsection \<open>Size and file-name length\<close>

text \<open>
  C2. A file whose size is above \<open>10 * 1024 * 1024\<close> is rejected with \<open>FileTooLarge\<close>
  and the size-limit message, whatever its name, the detector's answer and its content;
  a file of exactly that size is not rejected for its size.
\<close>

theorem size_check:
  "(size_file f > 10 * 1024 * 1024 \<longrightarrow>
      fst (validate_file g f) =
        Inl (ValidationError FileTooLarge
               ''File validation failed: ['File size exceeds maximum limit of 10MB']''))
   \<and> (size_file f = 10 * 1024 * 1024 \<longrightarrow> rejection (validate_file g f) \<noteq> Some FileTooLarge)"
proof (intro conjI impI)
  assume "size_file f > 10 * 1024 * 1024"
  then show "fst (validate_file g f) =
      Inl (ValidationError FileTooLarge
             ''File validation failed: ['File size exceeds maximum limit of 10MB']'')"
    by (simp add: validate_file_cases fails_size_def)
next
  assume "size_file f = 10 * 1024 * 1024"
  then show "rejection (validate_file g f) \<noteq> Some FileTooLarge"
    by (simp add: rejection_cases fails_size_def)
qed

theorem size_check_witness:
  "size_file \<lparr>name = ''resume.pdf'', size_file = 10485761, content = ''hello'', pos = 0\<rparr>
     > 10 * 1024 * 1024
   \<and> fst (validate_file guess_by_extension
         \<lparr>name = ''resume.pdf'', size_file = 10485761, content = ''hello'', pos = 0\<rparr>) =
        Inl (ValidationError FileTooLarge
               ''File validation failed: ['File size exceeds maximum limit of 10MB']'')
   \<and> size_file \<lparr>name = ''resume.pdf'', size_file = 10485760, content = ''hello'', pos = 0\<rparr>
     = 10 * 1024 * 1024
   \<and> rejection (validate_file guess_by_extension
         \<lparr>name = ''resume.pdf'', size_file = 10485760, content = ''hello'', pos = 0\<rparr>)
       \<noteq> Some FileTooLarge"
  using size_check [of "\<lparr>name = ''resume.pdf'', size_file = 10485761, content = ''hello'', pos = 0\<rparr>"
                      guess_by_extension]
        size_check [of "\<lparr>name = ''resume.pdf'', size_file = 10485760, content = ''hello'', pos = 0\<rparr>"
                      guess_by_extension]
  by simp

text \<open>
  C6. A file within the size limit whose name has more than 255 characters is rejected
  with \<open>FilenameTooLong\<close>; a name of exactly 255 characters is not rejected for its length.
\<close>

theorem filename_length_check:
  "(size_file f \<le> 10 * 1024 * 1024 \<and> length (name f) > 255 \<longrightarrow>
      fst (validate_file g f) =
        Inl (ValidationError FilenameTooLong
               ''File validation failed: ['Filename too long. Maximum length is 255 characters']''))
   \<and> (length (name f) = 255 \<longrightarrow> rejection (validate_file g f) \<noteq> Some FilenameTooLong)"
proof (intro conjI impI)
  assume "size_file f \<le> 10 * 1024 * 1024 \<and> length (name f) > 255"
  then show "fst (validate_file g f) =
      Inl (ValidationError FilenameTooLong
             ''File validation failed: ['Filename too long. Maximum length is 255 characters']'')"
    by (simp add: validate_file_cases fails_size_def fails_filename_length_def)
next
  assume "length (name f) = 255"
  then show "rejection (validate_file g f) \<noteq> Some FilenameTooLong"
    by (simp add: rejection_cases fails_filename_length_def)
qed

theorem filename_length_check_witness:
  "size_file \<lparr>name = replicate 256 (CHR ''a''), size_file = 5, content = ''hello'', pos = 0\<rparr>
     \<le> 10 * 1024 * 1024
   \<and> length (name \<lparr>name = replicate 256 (CHR ''a''), size_file = 5, content = ''hello'', pos = 0\<rparr>)
     > 255
   \<and> fst (validate_file guess_by_extension
         \<lparr>name = replicate 256 (CHR ''a''), size_file = 5, content = ''hello'', pos = 0\<rparr>) =
        Inl (ValidationError FilenameTooLong
               ''File validation failed: ['Filename too long. Maximum length is 255 characters']'')
   \<and> length (name \<lparr>name = replicate 251 (CHR ''a'') @ ''.pdf'', size_file = 5,
                     content = ''hello'', pos = 0\<rparr>) = 255
   \<and> rejection (validate_file guess_by_extension
         \<lparr>name = replicate 251 (CHR ''a'') @ ''.pdf'', size_file = 5, content = ''hello'', pos = 0\<rparr>)
       \<noteq> Some FilenameTooLong"
  using filename_length_check
          [of "\<lparr>name = replicate 256 (CHR ''a''), size_file = 5, content = ''hello'', pos = 0\<rparr>"
              guess_by_extension]
        filename_length_check
          [of "\<lparr>name = replicate 251 (CHR ''a'') @ ''.pdf'', size_file = 5, content = ''hello'',
                 pos = 0\<rparr>" guess_by_extension]
  by simp

subsection \<open>The extension check\<close>

text \<open>
  \<open>rfind\<close> finds the last occurrence, so what \<open>splitext\<close> returns as the extension is
  either empty or the text of the name from its last dot on.
\<close>

lemma rfind_from_absent: "c \<notin> set xs \<Longrightarrow> rfind_from c xs i found = found"
  by (induction xs arbitrary: i found) auto

lemma rfind_from_last:
  "c \<in> set xs \<Longrightarrow>
     \<exists>ys zs. xs = ys @ c # zs \<and> c \<notin> set zs \<and> rfind_from c xs i found = i + int (length ys)"
proof (induction xs arbitrary: i found)
  case Nil
  then show ?case by simp
next
  case (Cons x xs)
  show ?case
  proof (cases "c \<in> set xs")
    case True
    from Cons.IH [OF True, of "i + 1" "if x = c then i else found"]
    obtain ys zs where "xs = ys @ c # zs" "c \<notin> set zs"
      "rfind_from c xs (i + 1) (if x = c then i else found) = i + 1 + int (length ys)"
      by blast
    then have "x # xs = (x # ys) @ c # zs \<and> c \<notin> set zs
        \<and> rfind_from c (x # xs) i found = i + int (length (x # ys))"
      by simp
    then show ?thesis by blast
  next
    case False
    with Cons.prems have "x = c" by simp
    with False have "x # xs = [] @ c # xs \<and> c \<notin> set xs
        \<and> rfind_from c (x # xs) i found = i + int (length ([] :: string))"
      by (simp add: rfind_from_absent)
    then show ?thesis by blast
  qed
qed

lemma rfind_absent: "c \<notin> set p \<Longrightarrow> rfind c p = - 1"
  by (simp add: rfind_def rfind_from_absent)

lemma rfind_lower_bound: "- 1 \<le> rfind c p"
proof (cases "c \<in> set p")
  case True
  from rfind_from_last [OF True, of 0 "- 1"] show ?thesis by (auto simp: rfind_def)
next
  case False
  then show ?thesis by (simp add: rfind_absent)
qed

lemma drop_rfind:
  assumes "c \<in> set p"
  shows "drop (nat (rfind c p)) p = c # rev (takeWhile (\<lambda>x. x \<noteq> c) (rev p))"
proof -
  from rfind_from_last [OF assms, of 0 "- 1"]
  obtain ys zs where p: "p = ys @ c # zs" and z: "c \<notin> set zs"
    and r: "rfind c p = int (length ys)"
    by (auto simp: rfind_def)
  from z have "takeWhile (\<lambda>x. x \<noteq> c) (rev zs @ c # rev ys) = rev zs"
    by (auto simp: takeWhile_tail)
  with p r show ?thesis by simp
qed

lemma splitext_extension:
  "snd (splitext p) = [] \<or> snd (splitext p) = suffix_from_last_dot p"
proof (cases "CHR ''.'' \<in> set p")
  case True
  then show ?thesis
    by (simp add: splitext_def Let_def suffix_from_last_dot_def drop_rfind)
next
  case False
  then have "rfind (CHR ''.'') p = - 1" by (rule rfind_absent)
  moreover have "- 1 \<le> rfind (CHR ''/'') p" by (rule rfind_lower_bound)
  ultimately show ?thesis by (simp add: splitext_def Let_def)
qed

lemma allowed_extensions:
  "set (map snd ALLOWED_FILE_TYPES) = {''.pdf'', ''.doc'', ''.docx'', ''.txt'', ''.jpg'', ''.png''}"
  by (simp add: ALLOWED_FILE_TYPES_def)

lemma lower_str_Nil: "lower_str [] = []"
  by (simp add: lower_str_def)

lemma fails_extension_suffix:
  assumes "lower_str (suffix_from_last_dot (name f))
             \<notin> {''.pdf'', ''.doc'', ''.docx'', ''.txt'', ''.jpg'', ''.png''}"
  shows "fails_extension f"
proof -
  from splitext_extension [of "name f"] show ?thesis
  proof
    assume "snd (splitext (name f)) = []"
    then show ?thesis
      by (simp only: fails_extension_def allowed_extensions lower_str_Nil) simp
  next
    assume "snd (splitext (name f)) = suffix_from_last_dot (name f)"
    with assms show ?thesis
      unfolding fails_extension_def allowed_extensions by simp
  qed
qed


text \<open>
  C5. A file within the size and name-length limits is rejected with
  \<open>ExtensionNotAllowed\<close> whenever the lowercase text from the last dot of its name is
  not one of \<open>.pdf\<close>, \<open>.doc\<close>, \<open>.docx\<close>, \<open>.txt\<close>, \<open>.jpg\<close>, \<open>.png\<close>; so is a file
  named \<open>resume.exe\<close>.
\<close>

theorem extension_check:
  "(size_file f \<le> 10 * 1024 * 1024 \<and> length (name f) \<le> 255
      \<and> lower_str (suffix_from_last_dot (name f))
            \<notin> {''.pdf'', ''.doc'', ''.docx'', ''.txt'', ''.jpg'', ''.png''} \<longrightarrow>
      fst (validate_file g f) =
        Inl (ValidationError ExtensionNotAllowed
               ''File validation failed: ['File type not allowed. Allowed types: .pdf, .doc, .docx, .txt, .jpg, .png']''))
   \<and> (size_file f \<le> 10 * 1024 * 1024 \<and> name f = ''resume.exe'' \<longrightarrow>
      fst (validate_file g f) =
        Inl (ValidationError ExtensionNotAllowed
               ''File validation failed: ['File type not allowed. Allowed types: .pdf, .doc, .docx, .txt, .jpg, .png']''))"
proof (intro conjI impI)
  assume a: "size_file f \<le> 10 * 1024 * 1024 \<and> length (name f) \<le> 255
      \<and> lower_str (suffix_from_last_dot (name f))
            \<notin> {''.pdf'', ''.doc'', ''.docx'', ''.txt'', ''.jpg'', ''.png''}"
  then have "fails_extension f" by (simp add: fails_extension_suffix)
  with a show "fst (validate_file g f) =
        Inl (ValidationError ExtensionNotAllowed
               ''File validation failed: ['File type not allowed. Allowed types: .pdf, .doc, .docx, .txt, .jpg, .png']'')"
    by (simp add: validate_file_cases fails_size_def fails_filename_length_def)
next
  assume a: "size_file f \<le> 10 * 1024 * 1024 \<and> name f = ''resume.exe''"
  have "lower_str (snd (splitext ''resume.exe'')) = ''.exe''" by code_simp
  with a have "fails_extension f" by (simp add: fails_extension_def ALLOWED_FILE_TYPES_def)
  with a show "fst (validate_file g f) =
        Inl (ValidationError ExtensionNotAllowed
               ''File validation failed: ['File type not allowed. Allowed types: .pdf, .doc, .docx, .txt, .jpg, .png']'')"
    by (simp add: validate_file_cases fails_size_def fails_filename_length_def)
qed

theorem extension_check_witness:
  "size_file \<lparr>name = ''notes.tar.GZ'', size_file = 5, content = ''hello'', pos = 0\<rparr>
     \<le> 10 * 1024 * 1024
   \<and> length (name \<lparr>name = ''notes.tar.GZ'', size_file = 5, content = ''hello'', pos = 0\<rparr>)
     \<le> 255
   \<and> lower_str (suffix_from_last_dot
         (name \<lparr>name = ''notes.tar.GZ'', size_file = 5, content = ''hello'', pos = 0\<rparr>))
       \<notin> {''.pdf'', ''.doc'', ''.docx'', ''.txt'', ''.jpg'', ''.png''}
   \<and> fst (validate_file guess_by_extension
         \<lparr>name = ''notes.tar.GZ'', size_file = 5, content = ''hello'', pos = 0\<rparr>) =
        Inl (ValidationError ExtensionNotAllowed
               ''File validation failed: ['File type not allowed. Allowed types: .pdf, .doc, .docx, .txt, .jpg, .png']'')
   \<and> fst (validate_file guess_by_extension
         \<lparr>name = ''resume.exe'', size_file = 5, content = ''hello'', pos = 0\<rparr>) =
        Inl (ValidationError ExtensionNotAllowed
               ''File validation failed: ['File type not allowed. Allowed types: .pdf, .doc, .docx, .txt, .jpg, .png']'')"
proof -
  have s: "lower_str (suffix_from_last_dot ''notes.tar.GZ'') = ''.gz''" by code_simp
  show ?thesis
    using s
      extension_check
        [of "\<lparr>name = ''notes.tar.GZ'', size_file = 5, content = ''hello'', pos = 0\<rparr>"
            guess_by_extension]
      extension_check
        [of "\<lparr>name = ''resume.exe'', size_file = 5, content = ''hello'', pos = 0\<rparr>"
            guess_by_extension]
    by simp
qed

subsection \<open>The MIME check\<close>

text \<open>
  Once the extension check has passed, the fallback through the reversed allow-list
  always finds an allowed type; the MIME check can then fail only on a type that the
  detector itself returned.
\<close>

lemma allowed_mimes:
  "set (map fst ALLOWED_FILE_TYPES) =
     {''application/pdf'', ''application/msword'',
      ''application/vnd.openxmlformats-officedocument.wordprocessingml.document'',
      ''text/plain'', ''image/jpeg'', ''image/png''}"
  by (simp add: ALLOWED_FILE_TYPES_def)

lemma extension_to_mime_allowed:
  assumes "\<not> fails_extension f"
  shows "extension_to_mime (lower_str (snd (splitext (name f))))
           \<in> Some ` set (map fst ALLOWED_FILE_TYPES)"
proof -
  from assms have "lower_str (snd (splitext (name f)))
      \<in> {''.pdf'', ''.doc'', ''.docx'', ''.txt'', ''.jpg'', ''.png''}"
    unfolding fails_extension_def allowed_extensions by simp
  then show ?thesis
    unfolding allowed_mimes
    by (auto simp: extension_to_mime_def ALLOWED_FILE_TYPES_def)
qed

lemma fails_mime_iff:
  assumes "\<not> fails_extension f"
  shows "fails_mime g f \<longleftrightarrow>
           (\<exists>m. g (name f) = Some m \<and> m \<noteq> [] \<and> m \<notin> set (map fst ALLOWED_FILE_TYPES))"
proof (cases "g (name f) = None \<or> g (name f) = Some []")
  case True
  then have "detected_mime g (name f) = extension_to_mime (lower_str (snd (splitext (name f))))"
    by (auto simp: detected_mime_def Let_def)
  with extension_to_mime_allowed [OF assms] have "\<not> fails_mime g f"
    by (simp only: fails_mime_def) simp
  with True show ?thesis by auto
next
  case False
  then obtain m where m: "g (name f) = Some m" "m \<noteq> []" by auto
  then have "detected_mime g (name f) = Some m"
    by (simp add: detected_mime_def Let_def)
  with m show ?thesis by (auto simp: fails_mime_def)
qed

text \<open>
  C10, as the code has it. For a file that passes the size, name-length and extension
  checks, \<open>validate_file\<close> rejects with \<open>MimeNotAllowed\<close> exactly when the detector
  returns a non-empty type that is not a key of the allow-list. When the detector returns
  nothing, the empty string or an allowed type, the MIME check passes.
\<close>

theorem mime_check:
  "size_file f \<le> 10 * 1024 * 1024 \<and> length (name f) \<le> 255 \<and> \<not> fails_extension f \<longrightarrow>
     (rejection (validate_file g f) = Some MimeNotAllowed \<longleftrightarrow>
        (\<exists>m. g (name f) = Some m \<and> m \<noteq> [] \<and> m \<notin> set (map fst ALLOWED_FILE_TYPES)))"
proof
  assume a: "size_file f \<le> 10 * 1024 * 1024 \<and> length (name f) \<le> 255 \<and> \<not> fails_extension f"
  then have "rejection (validate_file g f) = Some MimeNotAllowed \<longleftrightarrow> fails_mime g f"
    by (simp add: rejection_cases fails_size_def fails_filename_length_def)
  moreover from a have "fails_mime g f \<longleftrightarrow>
        (\<exists>m. g (name f) = Some m \<and> m \<noteq> [] \<and> m \<notin> set (map fst ALLOWED_FILE_TYPES))"
    by (intro fails_mime_iff) simp
  ultimately show "rejection (validate_file g f) = Some MimeNotAllowed \<longleftrightarrow>
        (\<exists>m. g (name f) = Some m \<and> m \<noteq> [] \<and> m \<notin> set (map fst ALLOWED_FILE_TYPES))"
    by (rule trans)
qed

theorem mime_check_witness:
  "size_file \<lparr>name = ''resume.pdf'', size_file = 5, content = ''hello'', pos = 0\<rparr>
     \<le> 10 * 1024 * 1024
   \<and> length (name \<lparr>name = ''resume.pdf'', size_file = 5, content = ''hello'', pos = 0\<rparr>) \<le> 255
   \<and> \<not> fails_extension \<lparr>name = ''resume.pdf'', size_file = 5, content = ''hello'', pos = 0\<rparr>
   \<and> rejection (validate_file guess_by_extension
         \<lparr>name = ''resume.pdf'', size_file = 5, content = ''hello'', pos = 0\<rparr>)
       \<noteq> Some MimeNotAllowed"
proof -
  let ?f = "\<lparr>name = ''resume.pdf'', size_file = 5, content = ''hello'', pos = 0\<rparr>"
  have e: "\<not> fails_extension ?f" by code_simp
  have d: "guess_by_extension ''resume.pdf'' = Some ''application/pdf''" by code_simp
  from e d mime_check [of ?f guess_by_extension] show ?thesis
    by (simp add: ALLOWED_FILE_TYPES_def)
qed

text \<open>
  The rejection is reachable: the name \<open>http:a.html?b.pdf\<close> has the allowed extension
  \<open>.pdf\<close>, the detector answers \<open>text/html\<close> for it, and the file is rejected with
  \<open>MimeNotAllowed\<close>.
\<close>

theorem mime_check_counterexample:
  "\<not> fails_size \<lparr>name = ''http:a.html?b.pdf'', size_file = 5, content = ''hello'', pos = 0\<rparr>
   \<and> \<not> fails_filename_length
         \<lparr>name = ''http:a.html?b.pdf'', size_file = 5, content = ''hello'', pos = 0\<rparr>
   \<and> \<not> fails_extension
         \<lparr>name = ''http:a.html?b.pdf'', size_file = 5, content = ''hello'', pos = 0\<rparr>
   \<and> fst (validate_file guess_as_url
         \<lparr>name = ''http:a.html?b.pdf'', size_file = 5, content = ''hello'', pos = 0\<rparr>) =
        Inl (ValidationError MimeNotAllowed
               ''File validation failed: ['File type not allowed. Detected: text/html']'')"
  by code_simp

subsection \<open>The content check\<close>


















subsection \<open>Outcomes and messages\<close>

lemma mime_rejection_message:
  assumes "\<not> fails_extension f" "fails_mime g f"
  shows "\<exists>d. g (name f) = Some d \<and> format_mime (detected_mime g (name f)) = d"
proof -
  from assms obtain m where m: "g (name f) = Some m" "m \<noteq> []"
    by (auto simp: fails_mime_iff)
  then have "detected_mime g (name f) = Some m" by (simp add: detected_mime_def Let_def)
  with m show ?thesis by simp
qed

text \<open>
  C7, as the code has it. A call either returns \<open>True\<close> or raises a \<open>ValidationError\<close>
  whose message is \<open>File validation failed: \<close> followed by the printed inner error. The
  size message names the limit in megabytes, the name-length message the limit of 255
  characters, the extension message the list of allowed extensions, the MIME message the
  type that the detector returned; the content message is a fixed text.
\<close>

theorem validate_file_outcomes:
  "fst (validate_file g f) = Inr True
   \<or> fst (validate_file g f) =
        Inl (ValidationError FileTooLarge
               ''File validation failed: ['File size exceeds maximum limit of 10MB']'')
   \<or> fst (validate_file g f) =
        Inl (ValidationError FilenameTooLong
               ''File validation failed: ['Filename too long. Maximum length is 255 characters']'')
   \<or> fst (validate_file g f) =
        Inl (ValidationError ExtensionNotAllowed
               ''File validation failed: ['File type not allowed. Allowed types: .pdf, .doc, .docx, .txt, .jpg, .png']'')
   \<or> (\<exists>d. g (name f) = Some d
          \<and> fst (validate_file g f) =
               Inl (ValidationError MimeNotAllowed
                      (''File validation failed: ''
                         @ str_ValidationError (''File type not allowed. Detected: '' @ d))))
   \<or> fst (validate_file g f) =
        Inl (ValidationError SuspiciousContent
               ''File validation failed: ['File contains suspicious content']'')"
proof (cases "fails_size f \<or> fails_filename_length f \<or> fails_extension f")
  case True
  then show ?thesis by (auto simp: validate_file_cases)
next
  case early: False
  show ?thesis
  proof (cases "fails_mime g f")
    case True
    with early obtain d where d: "g (name f) = Some d"
      "format_mime (detected_mime g (name f)) = d"
      using mime_rejection_message by blast
    from early True have "fst (validate_file g f) =
        Inl (ValidationError MimeNotAllowed
               (''File validation failed: ''
                  @ str_ValidationError
                      (''File type not allowed. Detected: ''
                         @ format_mime (detected_mime g (name f)))))"
      by (simp add: validate_file_cases del: append.simps)
    with d show ?thesis by (simp only:) blast
  next
    case False
    with early show ?thesis by (auto simp: validate_file_cases)
  qed
qed

theorem validate_file_outcomes_witness:
  "guess_as_url ''http:a.html?b.pdf'' = Some ''text/html''
   \<and> fst (validate_file guess_as_url
         \<lparr>name = ''http:a.html?b.pdf'', size_file = 5, content = ''hello'', pos = 0\<rparr>) =
        Inl (ValidationError MimeNotAllowed
               (''File validation failed: ''
                  @ str_ValidationError (''File type not allowed. Detected: '' @ ''text/html'')))"
proof -
  let ?f = "\<lparr>name = ''http:a.html?b.pdf'', size_file = 5, content = ''hello'', pos = 0\<rparr>"
  have r: "rejection (validate_file guess_as_url ?f) = Some MimeNotAllowed" by code_simp
  have d: "guess_as_url ''http:a.html?b.pdf'' = Some ''text/html''" by code_simp
  from r d validate_file_outcomes [of guess_as_url ?f] show ?thesis
    by (auto simp: rejection_def simp del: append.simps)
qed

text \<open>
  The content message names no marker and the extension message does not name the
  extension that was found: \<open>resume.pdf\<close> holding \<open><script>\<close> and \<open>resume.exe\<close>.
\<close>

theorem message_counterexample:
  "fst (validate_file guess_by_extension
         \<lparr>name = ''resume.pdf'', size_file = 8, content = ''<script>'', pos = 0\<rparr>) =
     Inl (ValidationError SuspiciousContent
            ''File validation failed: ['File contains suspicious content']'')
   \<and> \<not> sublist ''<script'' ''File validation failed: ['File contains suspicious content']''
   \<and> fst (validate_file guess_by_extension
         \<lparr>name = ''resume.exe'', size_file = 8, content = ''hello'', pos = 0\<rparr>) =
     Inl (ValidationError ExtensionNotAllowed
            ''File validation failed: ['File type not allowed. Allowed types: .pdf, .doc, .docx, .txt, .jpg, .png']'')
   \<and> \<not> sublist ''.exe''
         ''File validation failed: ['File type not allowed. Allowed types: .pdf, .doc, .docx, .txt, .jpg, .png']''"
  by code_simp

subsection \<open>The stream position\<close>

lemma validate_file_state:
  "snd (validate_file g f) =
     (if fails_size f \<or> fails_filename_length f \<or> fails_extension f then f else f\<lparr>pos := 0\<rparr>)"
  by (simp add: validate_file_cases)

text \<open>
  C8, as the code has it. A call changes nothing of the file but the position of its
  stream. The position stays where it was when the size, name-length or extension check
  rejects, since nothing has been read then; in every other case the call ends with the
  stream at position 0. So a stream that starts at 0 is left as it was.
\<close>

theorem stream_position:
  "snd (validate_file g f) =
     (if size_file f > 10 * 1024 * 1024 \<or> length (name f) > 255 \<or> fails_extension f
      then f else f\<lparr>pos := 0\<rparr>)
   \<and> (pos f = 0 \<longrightarrow> snd (validate_file g f) = f)"
  by (simp add: validate_file_state fails_size_def fails_filename_length_def)

theorem stream_position_witness:
  "pos \<lparr>name = ''a.txt'', size_file = 11, content = ''hello world'', pos = 0\<rparr> = 0
   \<and> snd (validate_file guess_by_extension
         \<lparr>name = ''a.txt'', size_file = 11, content = ''hello world'', pos = 0\<rparr>)
       = \<lparr>name = ''a.txt'', size_file = 11, content = ''hello world'', pos = 0\<rparr>"
  using stream_position
          [of guess_by_extension
              "\<lparr>name = ''a.txt'', size_file = 11, content = ''hello world'', pos = 0\<rparr>"]
  by simp

text \<open>From position 5 an accepted \<open>a.txt\<close> comes back at position 0.\<close>

theorem stream_position_counterexample:
  "pos (snd (validate_file guess_by_extension
         \<lparr>name = ''a.txt'', size_file = 11, content = ''hello world'', pos = 5\<rparr>))
     \<noteq> pos \<lparr>name = ''a.txt'', size_file = 11, content = ''hello world'', pos = 5\<rparr>"
  by code_simp

subsection \<open>Calling twice\<close>





end
